theory Spec2Isabelle
  imports Complex_Main
begin

section \<open>Python values and exceptions\<close>

text \<open>
  The exceptions the modelled code can raise. A function that may raise returns
  \<open>py_error + 'a\<close>, with \<open>Inl\<close> for the exception. Arithmetic is exact: a Python
  float is a \<open>real\<close>, so rounding, overflow, infinities and NaN are outside the model.
\<close>

datatype py_error =
    TypeError
  | ValueError
  | IndexError
  | ZeroDivisionError
  | AttributeError
  | Exception string

text \<open>A Python number: an instance of \<open>numbers.Real\<close> (int, float, bool) or a complex.\<close>

datatype pynum = PyFloat real | PyComplex complex

datatype mat22 = Mat22 real real real real

datatype vec2d = Vec2d real real

text \<open>The dynamically typed operands the methods of \<open>Mat22\<close> dispatch on.\<close>

datatype pyval =
    VNone
  | VNum pynum
  | VStr string
  | VMat mat22
  | VVec vec2d
  | VTuple "pyval list"
  | VList "pyval list"

text \<open>What a binary special method returns: a result, or Python's \<open>NotImplemented\<close>.\<close>

datatype 'a ret = Ret 'a | NotImplemented







section \<open>easymunk/mat22.py\<close>

text \<open>
  \<open>Mat22\<close> is a NamedTuple of four floats \<open>a b c d\<close>; the methods unpack it with
  \<open>a, b, c, d = self\<close>, which the model writes as pattern matching on \<open>Mat22 a b c d\<close>.
  The module \<open>.math\<close> that provides \<open>sqrt\<close>, \<open>cos\<close> and \<open>sin\<close> is not part of the
  sources: \<open>sqrt\<close> is the real square root, and \<open>cos\<close> and \<open>sin\<close> are parameters
  \<open>cosf\<close> and \<open>sinf\<close> of the three methods that use them.
\<close>

definition scale_mat :: "real \<Rightarrow> real option \<Rightarrow> mat22" where
  "scale_mat scale_x scale_y =
     (let sy = (case scale_y of None \<Rightarrow> scale_x | Some y \<Rightarrow> y)
      in Mat22 scale_x 0 0 sy)"

definition identity_mat :: mat22 where
  "identity_mat = scale_mat 1 (Some 1)"

definition rotation :: "(real \<Rightarrow> real) \<Rightarrow> (real \<Rightarrow> real) \<Rightarrow> real \<Rightarrow> mat22" where
  "rotation cosf sinf angle =
     (let cos_a = cosf angle; sin_a = sinf angle in Mat22 cos_a sin_a (- sin_a) cos_a)"

definition projection :: "(real \<Rightarrow> real) \<Rightarrow> (real \<Rightarrow> real) \<Rightarrow> real \<Rightarrow> mat22" where
  "projection cosf sinf angle =
     (let cos_a = cosf angle; sin_a = sinf angle; diag = cos_a * sin_a
      in Mat22 (cos_a ^ 2) diag diag (sin_a ^ 2))"

definition zero_mat :: mat22 where
  "zero_mat = Mat22 0 0 0 0"


fun determinant :: "mat22 \<Rightarrow> real" where
  "determinant (Mat22 a b c d) = a * d - b * c"





fun op_add :: "mat22 \<Rightarrow> pyval \<Rightarrow> mat22 ret" where
  "op_add (Mat22 a b c d) (VMat (Mat22 x y z w)) = Ret (Mat22 (a + x) (b + y) (c + z) (d + w))"
| "op_add self other = NotImplemented"


fun real_mul :: "mat22 \<Rightarrow> real \<Rightarrow> mat22" where
  "real_mul (Mat22 a b c d) r = Mat22 (a * r) (b * r) (c * r) (d * r)"

fun mat_mul :: "mat22 \<Rightarrow> mat22 \<Rightarrow> mat22" where
  "mat_mul (Mat22 a b c d) (Mat22 x y z w) =
     Mat22 (a * x + b * z) (a * y + b * w) (c * x + b * z) (c * y + d * w)"


fun transform_vector :: "mat22 \<Rightarrow> vec2d \<Rightarrow> vec2d" where
  "transform_vector (Mat22 a b c d) (Vec2d x y) = Vec2d (a * x + c * y) (b * x + d * y)"

fun op_mul :: "mat22 \<Rightarrow> pyval \<Rightarrow> pyval ret" where
  "op_mul self (VMat other) = Ret (VMat (mat_mul self other))"
| "op_mul self (VNum (PyFloat r)) = Ret (VMat (real_mul self r))"
| "op_mul self (VVec v) = Ret (VVec (transform_vector self v))"
| "op_mul self other = NotImplemented"









text \<open>
  \<open>as_mat2\<close>: a \<open>Mat22\<close> is returned as it is; a tuple or list is unpacked by
  \<open>(a, b), (c, d) = obj\<close>, which raises ValueError when a length is not two and
  TypeError when an element cannot be unpacked. The fields of \<open>mat22\<close> are floats, so
  an entry that is not a real number is reported as TypeError here.
\<close>

fun items :: "pyval \<Rightarrow> py_error + pyval list" where
  "items (VTuple xs) = Inr xs"
| "items (VList xs) = Inr xs"
| "items (VMat (Mat22 a b c d)) =
     Inr [VNum (PyFloat a), VNum (PyFloat b), VNum (PyFloat c), VNum (PyFloat d)]"
| "items (VVec (Vec2d x y)) = Inr [VNum (PyFloat x), VNum (PyFloat y)]"
| "items (VStr s) = Inr (map (\<lambda>ch. VStr [ch]) s)"
| "items v = Inl TypeError"

fun unpack2 :: "pyval \<Rightarrow> py_error + (pyval \<times> pyval)" where
  "unpack2 v =
     (case items v of
        Inl e \<Rightarrow> Inl e
      | Inr [x, y] \<Rightarrow> Inr (x, y)
      | Inr xs \<Rightarrow> Inl ValueError)"

fun as_real :: "pyval \<Rightarrow> py_error + real" where
  "as_real (VNum (PyFloat r)) = Inr r"
| "as_real v = Inl TypeError"

fun is_tuple_or_list :: "pyval \<Rightarrow> bool" where
  "is_tuple_or_list (VTuple xs) = True"
| "is_tuple_or_list (VList xs) = True"
| "is_tuple_or_list v = False"

fun as_mat2 :: "pyval \<Rightarrow> py_error + mat22" where
  "as_mat2 (VMat m) = Inr m"
| "as_mat2 obj =
     (if is_tuple_or_list obj then
        (case unpack2 obj of
           Inl e \<Rightarrow> Inl e
         | Inr (r1, r2) \<Rightarrow>
            (case unpack2 r1 of
               Inl e \<Rightarrow> Inl e
             | Inr (a, b) \<Rightarrow>
                (case unpack2 r2 of
                   Inl e \<Rightarrow> Inl e
                 | Inr (c, d) \<Rightarrow>
                    (case (as_real a, as_real b, as_real c, as_real d) of
                       (Inr a', Inr b', Inr c', Inr d') \<Rightarrow> Inr (Mat22 a' b' c' d')
                     | _ \<Rightarrow> Inl TypeError))))
      else Inl TypeError)"

text \<open>
  \<open>self * (1 - ratio) + as_mat2(other) * ratio\<close>, in Python's order of evaluation; a
  special method that returns \<open>NotImplemented\<close> makes the operator raise TypeError.
\<close>

definition interpolate_to :: "mat22 \<Rightarrow> pyval \<Rightarrow> real \<Rightarrow> py_error + mat22" where
  "interpolate_to self other ratio =
     (case op_mul self (VNum (PyFloat (1 - ratio))) of
        Ret (VMat lhs) \<Rightarrow>
          (case as_mat2 other of
             Inl e \<Rightarrow> Inl e
           | Inr m \<Rightarrow>
              (case op_mul m (VNum (PyFloat ratio)) of
                 Ret rhs \<Rightarrow> (case op_add lhs rhs of Ret r \<Rightarrow> Inr r | NotImplemented \<Rightarrow> Inl TypeError)
               | NotImplemented \<Rightarrow> Inl TypeError))
      | _ \<Rightarrow> Inl TypeError)"

fun inverse_mat :: "mat22 \<Rightarrow> py_error + mat22" where
  "inverse_mat (Mat22 a b c d) =
     (let det = determinant (Mat22 a b c d)
      in if det = 0 then Inl ZeroDivisionError
         else Inr (Mat22 (d / det) (- b / det) (- c / det) (a / det)))"


text \<open>\<open>M.inverse() * M\<close>: the operator \<open>*\<close> between two matrices is \<open>__mul__\<close>.\<close>

definition inverse_times :: "mat22 \<Rightarrow> py_error + pyval" where
  "inverse_times m =
     (case inverse_mat m of
        Inl e \<Rightarrow> Inl e
      | Inr i \<Rightarrow> (case op_mul i (VMat m) of Ret r \<Rightarrow> Inr r | NotImplemented \<Rightarrow> Inl TypeError))"

section \<open>pymunk/constraint.py\<close>

text \<open>
  The constraint classes wrap the compiled Chipmunk library, reached through the module
  global \<open>cp\<close>; the library is not part of the sources. The model takes it as a
  parameter \<open>lib\<close> over an opaque native state \<open>'w\<close>: \<open>ffi\<close> runs the foreign function
  of a given name on its arguments, \<open>peek\<close> and \<open>poke\<close> read and write a field of a
  native struct through a ctypes pointer. The Python side keeps a log of the foreign
  calls made, in order.
\<close>

type_synonym ref = nat

datatype cvalue =
    CNone
  | CNum real
  | CBool bool
  | CVec real real
  | CPtr nat
  | CStruct nat
  | CObj ref

record 'w lib =
  ffi :: "string \<Rightarrow> cvalue list \<Rightarrow> 'w \<Rightarrow> (py_error + cvalue) \<times> 'w"
  peek :: "'w \<Rightarrow> nat \<Rightarrow> string \<Rightarrow> cvalue"
  poke :: "'w \<Rightarrow> nat \<Rightarrow> string \<Rightarrow> cvalue \<Rightarrow> py_error + 'w"

text \<open>
  The attributes an instance of \<open>Constraint\<close> can carry; an attribute that was never
  assigned is \<open>None\<close> here, and reading it raises AttributeError.
\<close>

record cobj =
  attr_constraint :: "cvalue option"
  attr_ccontents :: "cvalue option"
  attr_dsc :: "cvalue option"
  attr_a :: "ref option"
  attr_b :: "ref option"

text \<open>A \<open>Body\<close>, as far as this module uses it: \<open>_body\<close> and the set \<open>_constraints\<close>.\<close>

record body =
  body_ptr :: cvalue
  constraints :: "ref set"

record 'w state =
  calls :: "(string \<times> cvalue list) list"
  native :: 'w
  cp_loaded :: bool
  objs :: "ref \<Rightarrow> cobj"
  bodies :: "ref \<Rightarrow> body option"

datatype cls =
    Constraint
  | PinJoint
  | SlideJoint
  | PivotJoint
  | GrooveJoint
  | DampedSpring
  | DampedRotarySpring
  | RotaryLimitJoint
  | RatchetJoint
  | GearJoint
  | SimpleMotor

text \<open>
  \<open>cp.f(args)\<close>: the attribute lookup on \<open>cp\<close> fails when the module global is
  \<open>None\<close>; otherwise the foreign function runs, and the call is logged.
\<close>

definition cp_call ::
  "'w lib \<Rightarrow> 'w state \<Rightarrow> string \<Rightarrow> cvalue list \<Rightarrow> (py_error + cvalue) \<times> 'w state" where
  "cp_call lib st fname args =
     (if cp_loaded st
      then (case ffi lib fname args (native st) of
              (r, w) \<Rightarrow> (r, st\<lparr>calls := calls st @ [(fname, args)], native := w\<rparr>))
      else (Inl AttributeError, st))"

definition get_constraint :: "'w state \<Rightarrow> ref \<Rightarrow> py_error + cvalue" where
  "get_constraint st self =
     (case attr_constraint (objs st self) of None \<Rightarrow> Inl AttributeError | Some h \<Rightarrow> Inr h)"

definition get_dsc :: "'w state \<Rightarrow> ref \<Rightarrow> py_error + cvalue" where
  "get_dsc st self =
     (case attr_dsc (objs st self) of None \<Rightarrow> Inl AttributeError | Some p \<Rightarrow> Inr p)"

definition get_body_attr :: "'w state \<Rightarrow> ref \<Rightarrow> string \<Rightarrow> py_error + cvalue" where
  "get_body_attr st self n =
     (case (if n = ''_a'' then attr_a (objs st self)
            else if n = ''_b'' then attr_b (objs st self) else None) of
        None \<Rightarrow> Inl AttributeError
      | Some r \<Rightarrow> Inr (CObj r))"

text \<open>\<open>p.contents\<close> on a ctypes pointer: a NULL pointer raises ValueError.\<close>

fun contents :: "cvalue \<Rightarrow> py_error + cvalue" where
  "contents (CPtr p) = (if p = 0 then Inl ValueError else Inr (CStruct p))"
| "contents v = Inl AttributeError"

subsection \<open>The properties\<close>

text \<open>
  The body of a getter or setter in the module is one of three forms:
  \<open>cp.f(self._constraint)\<close> or \<open>cp.f(self._constraint, value)\<close> (\<open>Foreign f\<close>),
  \<open>self._dsc.field\<close> or \<open>self._dsc.field = value\<close> (\<open>Field field\<close>), and
  \<open>self._a\<close> or \<open>self._b\<close> (\<open>Attr\<close>). \<open>props c\<close> lists the properties the class \<open>c\<close>
  defines itself, in source order: the name, the getter, and the setter if there is one.
\<close>

datatype accessor = Foreign string | Field string | Attr string

fun props :: "cls \<Rightarrow> (string \<times> accessor \<times> accessor option) list" where
  "props Constraint =
     [(''max_force'', Foreign ''cpConstraintGetMaxForce'', Some (Foreign ''cpConstraintSetMaxForce'')),
      (''error_bias'', Foreign ''cpConstraintGetErrorBias'', Some (Foreign ''cpConstraintSetErrorBias'')),
      (''max_bias'', Foreign ''cpConstraintGetMaxBias'', Some (Foreign ''cpConstraintSetMaxBias'')),
      (''collide_bodies'', Foreign ''cpConstraintGetCollideBodies'',
         Some (Foreign ''cpConstraintSetCollideBodies'')),
      (''impulse'', Foreign ''cpConstraintGetImpulse'', None),
      (''a'', Attr ''_a'', None),
      (''b'', Attr ''_b'', None)]"
| "props PinJoint =
     [(''anchor_a'', Foreign ''cpPinJointGetAnchorA'', Some (Foreign ''cpPinJointSetAnchorA'')),
      (''anchor_b'', Foreign ''cpPinJointGetAnchorB'', Some (Foreign ''cpPinJointSetAnchorB'')),
      (''distance'', Foreign ''cpPinJointGetDist'', Some (Foreign ''cpPinJointSetDist''))]"
| "props SlideJoint =
     [(''anchor_a'', Foreign ''cpSlideJointGetAnchorA'', Some (Foreign ''cpSlideJointSetAnchorA'')),
      (''anchor_b'', Foreign ''cpSlideJointGetAnchorB'', Some (Foreign ''cpSlideJointSetAnchorB'')),
      (''min'', Foreign ''cpSlideJointGetMin'', Some (Foreign ''cpSlideJointSetMin'')),
      (''max'', Foreign ''cpSlideJointGetMax'', Some (Foreign ''cpSlideJointSetMax''))]"
| "props PivotJoint =
     [(''anchor_a'', Foreign ''cpPivotJointGetAnchorA'', Some (Foreign ''cpPivotJointSetAnchorA'')),
      (''anchor_b'', Foreign ''cpPivotJointGetAnchorB'', Some (Foreign ''cpPivotJointSetAnchorB''))]"
| "props GrooveJoint =
     [(''anchor_b'', Foreign ''cpGrooveJointGetAnchorB'', Some (Foreign ''cpGrooveJointSetAnchorB'')),
      (''groove_a'', Foreign ''cpGrooveJointGetGrooveA'', Some (Foreign ''cpGrooveJointSetGrooveA'')),
      (''groove_b'', Foreign ''cpGrooveJointGetGrooveB'', Some (Foreign ''cpGrooveJointSetGrooveB''))]"
| "props DampedSpring =
     [(''anchor_a'', Foreign ''cpDampedSpringGetAnchorA'', Some (Foreign ''cpDampedSpringSetAnchorA'')),
      (''anchor_b'', Foreign ''cpDampedSpringGetAnchorB'', Some (Foreign ''cpDampedSpringSetAnchorB'')),
      (''rest_length'', Foreign ''cpDampedSpringGetRestLength'',
         Some (Foreign ''cpDampedSpringSetRestLength'')),
      (''stiffness'', Foreign ''cpDampedSpringGetStiffness'',
         Some (Foreign ''cpDampedSpringSetStiffness'')),
      (''damping'', Foreign ''cpDampedSpringGetDamping'', Some (Foreign ''cpDampedSpringSetDamping''))]"
| "props DampedRotarySpring =
     [(''rest_angle'', Foreign ''cpDampedRotarySpringGetRestAngle'',
         Some (Foreign ''cpDampedRotarySpringSetRestAngle'')),
      (''stiffness'', Foreign ''cpDampedRotarySpringGetStiffness'',
         Some (Foreign ''cpDampedRotarySpringSetStiffness'')),
      (''damping'', Foreign ''cpDampedRotarySpringGetDamping'',
         Some (Foreign ''cpDampedRotarySpringSetDamping''))]"
| "props RotaryLimitJoint =
     [(''min'', Foreign ''cpRotaryLimitJointGetMin'', Some (Foreign ''cpRotaryLimitJointSetMin'')),
      (''max'', Foreign ''cpRotaryLimitJointGetMax'', Some (Foreign ''cpRotaryLimitJointSetMax''))]"
| "props RatchetJoint =
     [(''angle'', Foreign ''cpRatchetJointGetAngle'', Some (Foreign ''cpRatchetJointSetAngle'')),
      (''phase'', Foreign ''cpRatchetJointGetPhase'', Some (Foreign ''cpRatchetJointSetPhase'')),
      (''ratchet'', Foreign ''cpRatchetJointGetRatchet'', Some (Foreign ''cpRatchetJointSetRatchet''))]"
| "props GearJoint =
     [(''phase'', Field ''phase'', Some (Field ''phase'')),
      (''ratio'', Field ''ratio'', Some (Field ''ratio''))]"
| "props SimpleMotor =
     [(''rate'', Field ''rate'', Some (Field ''rate''))]"

declare props.simps [simp del]

text \<open>
  Attribute lookup on the class: the properties of the class itself come first, then
  those it inherits from \<open>Constraint\<close>.
\<close>

definition find_prop :: "cls \<Rightarrow> string \<Rightarrow> (accessor \<times> accessor option) option" where
  "find_prop c name =
     (case map_of (props c) name of
        Some p \<Rightarrow> Some p
      | None \<Rightarrow> map_of (props Constraint) name)"

fun fget :: "'w lib \<Rightarrow> accessor \<Rightarrow> 'w state \<Rightarrow> ref \<Rightarrow> (py_error + cvalue) \<times> 'w state" where
  "fget lib (Foreign f) st self =
     (case get_constraint st self of
        Inl e \<Rightarrow> (Inl e, st)
      | Inr h \<Rightarrow> cp_call lib st f [h])"
| "fget lib (Field fld) st self =
     (case get_dsc st self of
        Inr (CStruct p) \<Rightarrow> (Inr (peek lib (native st) p fld), st)
      | Inr v \<Rightarrow> (Inl AttributeError, st)
      | Inl e \<Rightarrow> (Inl e, st))"
| "fget lib (Attr n) st self = (get_body_attr st self n, st)"

text \<open>A setter returns \<open>None\<close>: the result of the foreign setter is dropped.\<close>

fun fset ::
  "'w lib \<Rightarrow> accessor \<Rightarrow> 'w state \<Rightarrow> ref \<Rightarrow> cvalue \<Rightarrow> (py_error + cvalue) \<times> 'w state" where
  "fset lib (Foreign f) st self v =
     (case get_constraint st self of
        Inl e \<Rightarrow> (Inl e, st)
      | Inr h \<Rightarrow>
         (case cp_call lib st f [h, v] of
            (Inl e, st') \<Rightarrow> (Inl e, st')
          | (Inr r, st') \<Rightarrow> (Inr CNone, st')))"
| "fset lib (Field fld) st self v =
     (case get_dsc st self of
        Inr (CStruct p) \<Rightarrow>
         (case poke lib (native st) p fld v of
            Inl e \<Rightarrow> (Inl e, st)
          | Inr w \<Rightarrow> (Inr CNone, st\<lparr>native := w\<rparr>))
      | Inr u \<Rightarrow> (Inl AttributeError, st)
      | Inl e \<Rightarrow> (Inl e, st))"
| "fset lib (Attr n) st self v = (Inl AttributeError, st)"

text \<open>
  Reading and writing the property \<open>name\<close> of an instance of class \<open>c\<close>. A property
  without a setter raises AttributeError when written. A name that is not a property of
  the class is an ordinary instance attribute, which the model does not track: reading
  it raises AttributeError, writing it changes nothing here.
\<close>

definition read_prop ::
  "'w lib \<Rightarrow> cls \<Rightarrow> string \<Rightarrow> 'w state \<Rightarrow> ref \<Rightarrow> (py_error + cvalue) \<times> 'w state" where
  "read_prop lib c name st self =
     (case find_prop c name of
        None \<Rightarrow> (Inl AttributeError, st)
      | Some (g, s) \<Rightarrow> fget lib g st self)"

definition write_prop ::
  "'w lib \<Rightarrow> cls \<Rightarrow> string \<Rightarrow> 'w state \<Rightarrow> ref \<Rightarrow> cvalue \<Rightarrow> (py_error + cvalue) \<times> 'w state" where
  "write_prop lib c name st self v =
     (case find_prop c name of
        None \<Rightarrow> (Inr CNone, st)
      | Some (g, None) \<Rightarrow> (Inl AttributeError, st)
      | Some (g, Some s) \<Rightarrow> fset lib s st self v)"

subsection \<open>Construction and destruction\<close>

text \<open>
  \<open>Constraint.__init__(self, constraint=None)\<close> stores the handle it is given and
  dereferences it; it makes no foreign call.
\<close>

definition Constraint_init ::
  "'w state \<Rightarrow> ref \<Rightarrow> cvalue \<Rightarrow> (py_error + unit) \<times> 'w state" where
  "Constraint_init st self constraint =
     (let st1 = st\<lparr>objs := (objs st)(self := (objs st self)\<lparr>attr_constraint := Some constraint\<rparr>)\<rparr>
      in case contents constraint of
           Inl e \<Rightarrow> (Inl e, st1)
         | Inr cc \<Rightarrow>
            (Inr (), st1\<lparr>objs := (objs st1)(self := (objs st1 self)\<lparr>attr_ccontents := Some cc\<rparr>)\<rparr>))"

text \<open>\<open>a._body\<close>: AttributeError when \<open>a\<close> is not a \<open>Body\<close>.\<close>

definition body_of :: "'w state \<Rightarrow> ref \<Rightarrow> py_error + cvalue" where
  "body_of st a = (case bodies st a of None \<Rightarrow> Inl AttributeError | Some bd \<Rightarrow> Inr (body_ptr bd))"

definition add_constraint :: "'w state \<Rightarrow> ref \<Rightarrow> ref \<Rightarrow> (py_error + unit) \<times> 'w state" where
  "add_constraint st a self =
     (case bodies st a of
        None \<Rightarrow> (Inl AttributeError, st)
      | Some bd \<Rightarrow>
         (Inr (), st\<lparr>bodies := (bodies st)(a := Some (bd\<lparr>constraints := insert self (constraints bd)\<rparr>))\<rparr>))"

definition set_bodies :: "'w state \<Rightarrow> ref \<Rightarrow> ref \<Rightarrow> ref \<Rightarrow> (py_error + unit) \<times> 'w state" where
  "set_bodies st self a b =
     (let st1 = st\<lparr>objs := (objs st)(self := (objs st self)\<lparr>attr_a := Some a, attr_b := Some b\<rparr>)\<rparr>
      in case add_constraint st1 a self of
           (Inl e, st2) \<Rightarrow> (Inl e, st2)
         | (Inr u, st2) \<Rightarrow> add_constraint st2 b self)"

text \<open>
  The body shared by the constructors of the joints:
  \<open>self._constraint = cp.f(a._body, b._body, ...)\<close>, then, in \<open>GearJoint\<close> and
  \<open>SimpleMotor\<close> only (\<open>with_dsc\<close>), \<open>self._ccontents = self._constraint.contents\<close> and
  \<open>self._dsc = cp.cast(self._constraint, ...).contents\<close>, then
  \<open>self._set_bodies(a, b)\<close>.
\<close>

definition new_joint ::
  "'w lib \<Rightarrow> 'w state \<Rightarrow> ref \<Rightarrow> ref \<Rightarrow> ref \<Rightarrow> string \<Rightarrow> cvalue list \<Rightarrow> bool \<Rightarrow>
   (py_error + unit) \<times> 'w state" where
  "new_joint lib st self a b fname extra with_dsc =
     (if cp_loaded st then
        (case body_of st a of
           Inl e \<Rightarrow> (Inl e, st)
         | Inr pa \<Rightarrow>
            (case body_of st b of
               Inl e \<Rightarrow> (Inl e, st)
             | Inr pb \<Rightarrow>
                (case cp_call lib st fname ([pa, pb] @ extra) of
                   (Inl e, st1) \<Rightarrow> (Inl e, st1)
                 | (Inr h, st1) \<Rightarrow>
                    (let st2 = st1\<lparr>objs := (objs st1)(self := (objs st1 self)\<lparr>attr_constraint := Some h\<rparr>)\<rparr>
                     in if with_dsc then
                          (case contents h of
                             Inl e \<Rightarrow> (Inl e, st2)
                           | Inr cc \<Rightarrow>
                              set_bodies
                                (st2\<lparr>objs := (objs st2)(self := (objs st2 self)
                                   \<lparr>attr_ccontents := Some cc, attr_dsc := Some cc\<rparr>)\<rparr>)
                                self a b)
                        else set_bodies st2 self a b))))
      else (Inl AttributeError, st))"

definition PinJoint_init ::
  "'w lib \<Rightarrow> 'w state \<Rightarrow> ref \<Rightarrow> ref \<Rightarrow> ref \<Rightarrow> cvalue \<Rightarrow> cvalue \<Rightarrow> (py_error + unit) \<times> 'w state" where
  "PinJoint_init lib st self a b anchor_a anchor_b =
     new_joint lib st self a b ''cpPinJointNew'' [anchor_a, anchor_b] False"

definition SlideJoint_init ::
  "'w lib \<Rightarrow> 'w state \<Rightarrow> ref \<Rightarrow> ref \<Rightarrow> ref \<Rightarrow> cvalue \<Rightarrow> cvalue \<Rightarrow> cvalue \<Rightarrow> cvalue \<Rightarrow>
   (py_error + unit) \<times> 'w state" where
  "SlideJoint_init lib st self a b anchor_a anchor_b mn mx =
     new_joint lib st self a b ''cpSlideJointNew'' [anchor_a, anchor_b, mn, mx] False"

definition PivotJoint_init ::
  "'w lib \<Rightarrow> 'w state \<Rightarrow> ref \<Rightarrow> ref \<Rightarrow> ref \<Rightarrow> cvalue list \<Rightarrow> (py_error + unit) \<times> 'w state" where
  "PivotJoint_init lib st self a b args =
     (case args of
        [p] \<Rightarrow> new_joint lib st self a b ''cpPivotJointNew'' [p] False
      | [p, q] \<Rightarrow> new_joint lib st self a b ''cpPivotJointNew2'' [p, q] False
      | _ \<Rightarrow> (Inl (Exception ''You must specify either one pivot point or two anchor points''), st))"

definition GrooveJoint_init ::
  "'w lib \<Rightarrow> 'w state \<Rightarrow> ref \<Rightarrow> ref \<Rightarrow> ref \<Rightarrow> cvalue \<Rightarrow> cvalue \<Rightarrow> cvalue \<Rightarrow> (py_error + unit) \<times> 'w state" where
  "GrooveJoint_init lib st self a b groove_a groove_b anchor_b =
     new_joint lib st self a b ''cpGrooveJointNew'' [groove_a, groove_b, anchor_b] False"

definition DampedSpring_init ::
  "'w lib \<Rightarrow> 'w state \<Rightarrow> ref \<Rightarrow> ref \<Rightarrow> ref \<Rightarrow> cvalue \<Rightarrow> cvalue \<Rightarrow> cvalue \<Rightarrow> cvalue \<Rightarrow> cvalue \<Rightarrow>
   (py_error + unit) \<times> 'w state" where
  "DampedSpring_init lib st self a b anchor_a anchor_b rest_length stiffness damping =
     new_joint lib st self a b ''cpDampedSpringNew''
       [anchor_a, anchor_b, rest_length, stiffness, damping] False"

definition DampedRotarySpring_init ::
  "'w lib \<Rightarrow> 'w state \<Rightarrow> ref \<Rightarrow> ref \<Rightarrow> ref \<Rightarrow> cvalue \<Rightarrow> cvalue \<Rightarrow> cvalue \<Rightarrow> (py_error + unit) \<times> 'w state" where
  "DampedRotarySpring_init lib st self a b rest_angle stiffness damping =
     new_joint lib st self a b ''cpDampedRotarySpringNew'' [rest_angle, stiffness, damping] False"

definition RotaryLimitJoint_init ::
  "'w lib \<Rightarrow> 'w state \<Rightarrow> ref \<Rightarrow> ref \<Rightarrow> ref \<Rightarrow> cvalue \<Rightarrow> cvalue \<Rightarrow> (py_error + unit) \<times> 'w state" where
  "RotaryLimitJoint_init lib st self a b mn mx =
     new_joint lib st self a b ''cpRotaryLimitJointNew'' [mn, mx] False"

definition RatchetJoint_init ::
  "'w lib \<Rightarrow> 'w state \<Rightarrow> ref \<Rightarrow> ref \<Rightarrow> ref \<Rightarrow> cvalue \<Rightarrow> cvalue \<Rightarrow> (py_error + unit) \<times> 'w state" where
  "RatchetJoint_init lib st self a b phase ratchet =
     new_joint lib st self a b ''cpRatchetJointNew'' [phase, ratchet] False"

definition GearJoint_init ::
  "'w lib \<Rightarrow> 'w state \<Rightarrow> ref \<Rightarrow> ref \<Rightarrow> ref \<Rightarrow> cvalue \<Rightarrow> cvalue \<Rightarrow> (py_error + unit) \<times> 'w state" where
  "GearJoint_init lib st self a b phase ratio =
     new_joint lib st self a b ''cpGearJointNew'' [phase, ratio] True"

definition SimpleMotor_init ::
  "'w lib \<Rightarrow> 'w state \<Rightarrow> ref \<Rightarrow> ref \<Rightarrow> ref \<Rightarrow> cvalue \<Rightarrow> (py_error + unit) \<times> 'w state" where
  "SimpleMotor_init lib st self a b rate =
     new_joint lib st self a b ''cpSimpleMotorNew'' [rate] True"

text \<open>
  \<open>C(a, b, *args)\<close> for a joint class \<open>C\<close>: the positional arguments after the two
  bodies are bound to the parameters of \<open>C.__init__\<close> (\<open>PinJoint\<close> has the default
  \<open>(0, 0)\<close> for both anchors), and a wrong number of arguments raises TypeError.
  \<open>Constraint\<close> itself takes a handle instead of two bodies: see \<open>Constraint_init\<close>.
\<close>

definition init ::
  "'w lib \<Rightarrow> 'w state \<Rightarrow> cls \<Rightarrow> ref \<Rightarrow> ref \<Rightarrow> ref \<Rightarrow> cvalue list \<Rightarrow> (py_error + unit) \<times> 'w state" where
  "init lib st c self a b args =
     (case c of
        Constraint \<Rightarrow> (Inl TypeError, st)
      | PinJoint \<Rightarrow>
         (case args of
            [] \<Rightarrow> PinJoint_init lib st self a b (CVec 0 0) (CVec 0 0)
          | [p] \<Rightarrow> PinJoint_init lib st self a b p (CVec 0 0)
          | [p, q] \<Rightarrow> PinJoint_init lib st self a b p q
          | _ \<Rightarrow> (Inl TypeError, st))
      | SlideJoint \<Rightarrow>
         (case args of
            [p, q, mn, mx] \<Rightarrow> SlideJoint_init lib st self a b p q mn mx
          | _ \<Rightarrow> (Inl TypeError, st))
      | PivotJoint \<Rightarrow> PivotJoint_init lib st self a b args
      | GrooveJoint \<Rightarrow>
         (case args of
            [p, q, r] \<Rightarrow> GrooveJoint_init lib st self a b p q r
          | _ \<Rightarrow> (Inl TypeError, st))
      | DampedSpring \<Rightarrow>
         (case args of
            [p, q, r, s, d] \<Rightarrow> DampedSpring_init lib st self a b p q r s d
          | _ \<Rightarrow> (Inl TypeError, st))
      | DampedRotarySpring \<Rightarrow>
         (case args of
            [r, s, d] \<Rightarrow> DampedRotarySpring_init lib st self a b r s d
          | _ \<Rightarrow> (Inl TypeError, st))
      | RotaryLimitJoint \<Rightarrow>
         (case args of
            [mn, mx] \<Rightarrow> RotaryLimitJoint_init lib st self a b mn mx
          | _ \<Rightarrow> (Inl TypeError, st))
      | RatchetJoint \<Rightarrow>
         (case args of
            [p, r] \<Rightarrow> RatchetJoint_init lib st self a b p r
          | _ \<Rightarrow> (Inl TypeError, st))
      | GearJoint \<Rightarrow>
         (case args of
            [p, r] \<Rightarrow> GearJoint_init lib st self a b p r
          | _ \<Rightarrow> (Inl TypeError, st))
      | SimpleMotor \<Rightarrow>
         (case args of
            [r] \<Rightarrow> SimpleMotor_init lib st self a b r
          | _ \<Rightarrow> (Inl TypeError, st)))"

text \<open>
  \<open>__del__\<close>: \<open>if cp is not None: cp.cpConstraintFree(self._constraint)\<close>.
\<close>

definition del_obj :: "'w lib \<Rightarrow> 'w state \<Rightarrow> ref \<Rightarrow> (py_error + cvalue) \<times> 'w state" where
  "del_obj lib st self =
     (if cp_loaded st
      then (case get_constraint st self of
              Inl e \<Rightarrow> (Inl e, st)
            | Inr h \<Rightarrow>
               (case cp_call lib st ''cpConstraintFree'' [h] of
                  (Inl e, st') \<Rightarrow> (Inl e, st')
                | (Inr r, st') \<Rightarrow> (Inr CNone, st')))
      else (Inr CNone, st))"

subsection \<open>The life of a constraint object\<close>

text \<open>
  An object is created empty, initialised by \<open>__init__\<close>, used through its properties
  while the caller holds it, and finalised by \<open>__del__\<close> when the runtime collects it.
  When \<open>__init__\<close> raises, the caller never holds the object, and it is finalised at
  once. \<open>shutdown\<close> says that the interpreter is exiting when the object is collected:
  the module global \<open>cp\<close> has been set to \<open>None\<close> by then.
\<close>

definition empty_obj :: cobj where
  "empty_obj = \<lparr>attr_constraint = None, attr_ccontents = None, attr_dsc = None,
                attr_a = None, attr_b = None\<rparr>"

definition new_obj :: "'w state \<Rightarrow> ref \<Rightarrow> 'w state" where
  "new_obj st self = st\<lparr>objs := (objs st)(self := empty_obj)\<rparr>"

datatype action = Read string | Write string cvalue

fun do_action :: "'w lib \<Rightarrow> cls \<Rightarrow> ref \<Rightarrow> 'w state \<Rightarrow> action \<Rightarrow> 'w state" where
  "do_action lib c self st (Read name) = snd (read_prop lib c name st self)"
| "do_action lib c self st (Write name v) = snd (write_prop lib c name st self v)"

definition finalise :: "'w lib \<Rightarrow> 'w state \<Rightarrow> ref \<Rightarrow> bool \<Rightarrow> 'w state" where
  "finalise lib st self shutdown =
     snd (del_obj lib (if shutdown then st\<lparr>cp_loaded := False\<rparr> else st) self)"

definition lifetime ::
  "'w lib \<Rightarrow> 'w state \<Rightarrow> cls \<Rightarrow> ref \<Rightarrow> ref \<Rightarrow> ref \<Rightarrow> cvalue list \<Rightarrow> action list \<Rightarrow> bool \<Rightarrow> 'w state" where
  "lifetime lib st c self a b args acts shutdown =
     (case init lib (new_obj st self) c self a b args of
        (Inl e, st1) \<Rightarrow> finalise lib st1 self shutdown
      | (Inr u, st1) \<Rightarrow> finalise lib (foldl (do_action lib c self) st1 acts) self shutdown)"

subsection \<open>The classes of the module and the joint kinds of the glossary\<close>

definition joint_classes :: "cls list" where
  "joint_classes =
     [PinJoint, SlideJoint, PivotJoint, GrooveJoint, DampedSpring, DampedRotarySpring,
      RotaryLimitJoint, RatchetJoint, GearJoint, SimpleMotor]"

definition module_classes :: "cls list" where
  "module_classes = Constraint # joint_classes"

fun class_name :: "cls \<Rightarrow> string" where
  "class_name Constraint = ''Constraint''"
| "class_name PinJoint = ''PinJoint''"
| "class_name SlideJoint = ''SlideJoint''"
| "class_name PivotJoint = ''PivotJoint''"
| "class_name GrooveJoint = ''GrooveJoint''"
| "class_name DampedSpring = ''DampedSpring''"
| "class_name DampedRotarySpring = ''DampedRotarySpring''"
| "class_name RotaryLimitJoint = ''RotaryLimitJoint''"
| "class_name RatchetJoint = ''RatchetJoint''"
| "class_name GearJoint = ''GearJoint''"
| "class_name SimpleMotor = ''SimpleMotor''"

text \<open>
  The joint kinds the glossary of the spec names: pin, slide, pivot, groove, spring,
  motor, gear, ratchet. A class is of a kind when its name contains the kind's word.
\<close>

definition glossary_kinds :: "string list" where
  "glossary_kinds =
     [''Pin'', ''Slide'', ''Pivot'', ''Groove'', ''Spring'', ''Motor'', ''Gear'', ''Ratchet'']"

fun starts_with :: "string \<Rightarrow> string \<Rightarrow> bool" where
  "starts_with s [] = True"
| "starts_with [] (k # ks) = False"
| "starts_with (x # xs) (k # ks) = (x = k \<and> starts_with xs ks)"

fun name_contains :: "string \<Rightarrow> string \<Rightarrow> bool" where
  "name_contains [] k = (k = [])"
| "name_contains (x # xs) k = (starts_with (x # xs) k \<or> name_contains xs k)"

definition of_kind :: "cls \<Rightarrow> string \<Rightarrow> bool" where
  "of_kind c k = name_contains (class_name c) k"

text \<open>
  The foreign constructor that corresponds to a joint class \<open>C\<close> is \<open>cpCNew\<close>;
  \<open>PivotJoint\<close> with two anchor points uses \<open>cpPivotJointNew2\<close>. Its arguments after the
  two native bodies are the positional arguments, with the defaults of \<open>PinJoint\<close>.
\<close>

definition ctor_name :: "cls \<Rightarrow> nat \<Rightarrow> string" where
  "ctor_name c n =
     ''cp'' @ class_name c @ ''New'' @ (if c = PivotJoint \<and> n = 2 then ''2'' else [])"

definition ctor_args :: "cls \<Rightarrow> cvalue list \<Rightarrow> cvalue list" where
  "ctor_args c args = (if c = PinJoint then take 2 (args @ [CVec 0 0, CVec 0 0]) else args)"

fun arity_ok :: "cls \<Rightarrow> nat \<Rightarrow> bool" where
  "arity_ok Constraint n = False"
| "arity_ok PinJoint n = (n \<le> 2)"
| "arity_ok SlideJoint n = (n = 4)"
| "arity_ok PivotJoint n = (n = 1 \<or> n = 2)"
| "arity_ok GrooveJoint n = (n = 3)"
| "arity_ok DampedSpring n = (n = 5)"
| "arity_ok DampedRotarySpring n = (n = 3)"
| "arity_ok RotaryLimitJoint n = (n = 2)"
| "arity_ok RatchetJoint n = (n = 2)"
| "arity_ok GearJoint n = (n = 2)"
| "arity_ok SimpleMotor n = (n = 1)"

definition uses_dsc :: "cls \<Rightarrow> bool" where
  "uses_dsc c = (c = GearJoint \<or> c = SimpleMotor)"

fun is_foreign :: "accessor \<Rightarrow> bool" where
  "is_foreign (Foreign f) = True"
| "is_foreign g = False"


subsection \<open>A small native library and state to run the model on\<close>

text \<open>
  A stand-in for the native library with a counter as its state: every foreign
  function returns a pointer numbered by the calls made so far, and every struct field
  reads as the number of calls made so far.
\<close>

definition lib0 :: "nat lib" where
  "lib0 = \<lparr>ffi = (\<lambda>fname args w. (Inr (CPtr (w + 10)), Suc w)),
           peek = (\<lambda>w p fld. CNum (real w)),
           poke = (\<lambda>w p fld v. Inr w)\<rparr>"

text \<open>Two bodies, at the addresses 5 and 6, and no constraint object yet.\<close>

definition st0 :: "nat state" where
  "st0 = \<lparr>calls = [], native = 0, cp_loaded = True,
          objs = (\<lambda>r. empty_obj),
          bodies = (\<lambda>r. None)(5 := Some \<lparr>body_ptr = CPtr 50, constraints = {}\<rparr>,
                               6 := Some \<lparr>body_ptr = CPtr 60, constraints = {}\<rparr>)\<rparr>"

text \<open>
  The state after \<open>PinJoint(a, b)\<close>, and the state after \<open>GearJoint(a, b, 0, 3)\<close>, each
  with the new object at the address 7.
\<close>

definition st_pin :: "nat state" where
  "st_pin = snd (init lib0 (new_obj st0 7) PinJoint 7 5 6 [])"


section \<open>Mat22 values as objects in a store\<close>










section \<open>easymunk/pyglet/draw_options.py\<close>

text \<open>
  \<open>DrawOptions\<close> has two attributes: the flag \<open>new_batch\<close> and the pyglet batch
  \<open>batch\<close>, which is unset until \<open>__enter__\<close> when no batch was passed to \<open>__init__\<close>.
  pyglet is not part of the sources: a batch is the list of the vertex lists added to
  it, and \<open>batch.add\<close> appends one. The arguments of the draw methods are passed by
  value: positions are \<open>vec2d\<close>, radii and angles are reals, and a colour is of a type
  \<open>'c\<close> with the method \<open>as_int\<close> as a parameter (\<open>SpaceDebugColor\<close> is not part of the
  sources). \<open>Vec2d.rotated\<close> is a parameter too; the sum and difference of vectors are
  componentwise. \<open>math.sqrt\<close>, \<open>math.cos\<close>, \<open>math.sin\<close>, \<open>math.atan2\<close> and \<open>math.pi\<close>
  are the real functions and the real number.
\<close>

datatype gl_mode = GL_POINTS | GL_LINES | GL_TRIANGLES | GL_TRIANGLE_STRIP

datatype group = OrderedGroup nat | GrPointSize real

datatype vertex_data = V2f "real list" | V2i "int list"

record primitive =
  p_count :: int
  p_mode :: gl_mode
  p_group :: "group option"
  p_vertices :: vertex_data
  p_colors :: "int list"

record draw_options =
  new_batch :: bool
  batch :: "primitive list option"

text \<open>\<open>self.batch.add(...)\<close>: AttributeError while the attribute \<open>batch\<close> is unset.\<close>

definition batch_add :: "draw_options \<Rightarrow> primitive \<Rightarrow> (py_error + unit) \<times> draw_options" where
  "batch_add self p =
     (case batch self of
        None \<Rightarrow> (Inl AttributeError, self)
      | Some b \<Rightarrow> (Inr (), self\<lparr>batch := Some (b @ [p])\<rparr>))"

text \<open>\<open>int(x)\<close> on a float truncates towards zero.\<close>

definition py_int :: "real \<Rightarrow> int" where
  "py_int x = (if x \<ge> 0 then \<lfloor>x\<rfloor> else \<lceil>x\<rceil>)"





text \<open>\<open>color.as_int() * n\<close>: the tuple repeated \<open>n\<close> times.\<close>

definition repeat_color :: "int list \<Rightarrow> int \<Rightarrow> int list" where
  "repeat_color col n = concat (replicate (nat n) col)"



fun draw_segment ::
  "('c \<Rightarrow> int list) \<Rightarrow> draw_options \<Rightarrow> vec2d \<Rightarrow> vec2d \<Rightarrow> 'c \<Rightarrow> (py_error + unit) \<times> draw_options" where
  "draw_segment as_int self (Vec2d ax ay) (Vec2d bx by) color =
     (let line = [py_int ax, py_int ay, py_int bx, py_int by]
      in batch_add self
           \<lparr>p_count = 2, p_mode = GL_LINES, p_group = None, p_vertices = V2i line,
            p_colors = repeat_color (as_int color) 2\<rparr>)"







section \<open>Properties of Mat22\<close>











text \<open>
  C4: the docstring of \<open>inverse\<close> promises \<open>M.inverse() * M = Mat22.identity()\<close>.
  At the matrix \<open>Mat22(1, 0, 1, 1)\<close>, whose determinant is 1, the product computed by
  \<open>_mat_mul\<close> is \<open>Mat22(1, 0, -1, 1)\<close>, not the identity, and the identity on the left
  does not give the matrix back: the third entry of \<open>_mat_mul\<close> is \<open>c * x + b * z\<close>
  where the matrix product has \<open>c * x + d * z\<close>.
\<close>

theorem inverse_times_not_identity:
  "determinant (Mat22 1 0 1 1) \<noteq> 0 \<and>
   inverse_times (Mat22 1 0 1 1) = Inr (VMat (Mat22 1 0 (- 1) 1)) \<and>
   inverse_times (Mat22 1 0 1 1) \<noteq> Inr (VMat identity_mat) \<and>
   mat_mul identity_mat (Mat22 1 0 1 1) = Mat22 1 0 0 1 \<and>
   mat_mul (Mat22 1 0 1 1) identity_mat = Mat22 1 0 1 1"
  by (simp add: inverse_times_def identity_mat_def scale_mat_def)

text \<open>
  C10: for every matrix \<open>m\<close> and every matrix \<open>other\<close>, \<open>m.interpolate_to(other, 0.0)\<close>
  is \<open>m\<close> and \<open>m.interpolate_to(other, 1.0)\<close> is \<open>other\<close>, over exact real arithmetic.
\<close>

theorem interpolate_to_endpoints:
  "interpolate_to m (VMat other) 0 = Inr m \<and> interpolate_to m (VMat other) 1 = Inr other"
  by (cases m; cases other) (simp add: interpolate_to_def)

section \<open>Properties of the constraint classes\<close>

subsection \<open>The property tables\<close>

lemma find_prop_cases:
  assumes "find_prop c name = Some p"
  shows "(name, p) \<in> set (props c) \<or> (name, p) \<in> set (props Constraint)"
proof (cases "map_of (props c) name")
  case None
  with assms have "map_of (props Constraint) name = Some p"
    by (simp add: find_prop_def)
  then show ?thesis by (blast dest: map_of_SomeD)
next
  case (Some q)
  with assms have "map_of (props c) name = Some p"
    by (simp add: find_prop_def)
  then show ?thesis by (blast dest: map_of_SomeD)
qed

lemma find_prop_sharp:
  assumes "find_prop c name = Some p"
  shows "(name, p) \<in> set (props c) \<or>
         (name \<notin> fst ` set (props c) \<and> (name, p) \<in> set (props Constraint))"
proof (cases "map_of (props c) name")
  case None
  with assms have "map_of (props Constraint) name = Some p"
    by (simp add: find_prop_def)
  then have "(name, p) \<in> set (props Constraint)" by (rule map_of_SomeD)
  moreover from None have "name \<notin> fst ` set (props c)" by (simp add: map_of_eq_None_iff)
  ultimately show ?thesis by blast
next
  case (Some q)
  with assms have "map_of (props c) name = Some p"
    by (simp add: find_prop_def)
  then show ?thesis by (blast dest: map_of_SomeD)
qed

lemma no_setter_in:
  assumes "(name, g, s) \<in> set (props c)"
  shows "(s = None) = (name = ''impulse'' \<or> name = ''a'' \<or> name = ''b'')"
  using assms by (cases c) (auto simp: props.simps)


lemma getter_kind_own:
  assumes "(name, g, s) \<in> set (props c)"
  shows "is_foreign g =
         (\<not> (name = ''a'' \<or> name = ''b'' \<or>
              (c = GearJoint \<and> (name = ''phase'' \<or> name = ''ratio'')) \<or>
              (c = SimpleMotor \<and> name = ''rate'')))"
  using assms by (cases c) (auto simp: props.simps)

lemma own_names_dsc:
  "name \<notin> fst ` set (props GearJoint) \<Longrightarrow> name \<noteq> ''phase'' \<and> name \<noteq> ''ratio''"
  "name \<notin> fst ` set (props SimpleMotor) \<Longrightarrow> name \<noteq> ''rate''"
  by (auto simp: props.simps)

lemma setter_kind_in:
  assumes "(name, g, Some s) \<in> set (props c)"
  shows "is_foreign s = is_foreign g"
  using assms by (cases c) (auto simp: props.simps)


subsection \<open>Foreign calls and the constructors\<close>

lemma cp_call_loaded:
  "cp_loaded st \<Longrightarrow>
   cp_call lib st f args =
     (fst (ffi lib f args (native st)),
      st\<lparr>calls := calls st @ [(f, args)], native := snd (ffi lib f args (native st))\<rparr>)"
  by (simp add: cp_call_def split: prod.splits)



lemmas init_defs = PinJoint_init_def SlideJoint_init_def PivotJoint_init_def GrooveJoint_init_def
  DampedSpring_init_def DampedRotarySpring_init_def RotaryLimitJoint_init_def RatchetJoint_init_def
  GearJoint_init_def SimpleMotor_init_def

lemma init_arity_ok:
  assumes "arity_ok c (length args)"
  shows "init lib st c self a b args =
         new_joint lib st self a b (ctor_name c (length args)) (ctor_args c args) (uses_dsc c)"
proof (cases c)
  case PinJoint
  with assms show ?thesis
    by (auto simp: init_def init_defs ctor_name_def ctor_args_def uses_dsc_def split: list.splits)
next
  case PivotJoint
  with assms show ?thesis
    by (auto simp: init_def init_defs ctor_name_def ctor_args_def uses_dsc_def split: list.splits)
qed (use assms in \<open>auto simp: init_def init_defs ctor_name_def ctor_args_def uses_dsc_def split: list.splits\<close>)

lemma init_arity_bad:
  assumes "\<not> arity_ok c (length args)"
  shows "init lib st c self a b args =
         (Inl (if c = PivotJoint
               then Exception ''You must specify either one pivot point or two anchor points''
               else TypeError), st)"
  using assms by (cases c) (auto simp: init_def init_defs split: list.splits)

lemma set_bodies_ok:
  assumes "bodies st a = Some ba" and "bodies st b = Some bb"
  shows "\<exists>st'. set_bodies st self a b = (Inr (), st') \<and> calls st' = calls st \<and>
           native st' = native st \<and> cp_loaded st' = cp_loaded st \<and>
           attr_constraint (objs st' self) = attr_constraint (objs st self) \<and>
           attr_dsc (objs st' self) = attr_dsc (objs st self) \<and>
           attr_a (objs st' self) = Some a \<and> attr_b (objs st' self) = Some b \<and>
           (\<exists>ba'. bodies st' a = Some ba' \<and> self \<in> constraints ba') \<and>
           (\<exists>bb'. bodies st' b = Some bb' \<and> self \<in> constraints bb')"
  using assms by (cases "a = b") (simp_all add: set_bodies_def add_constraint_def Let_def)

lemma new_joint_ok:
  assumes "cp_loaded st" and "bodies st a = Some ba" and "bodies st b = Some bb"
    and "ffi lib f ([body_ptr ba, body_ptr bb] @ extra) (native st) = (Inr h, w)"
    and "with_dsc \<Longrightarrow> \<exists>cc. contents h = Inr cc"
  shows "\<exists>st'. new_joint lib st self a b f extra with_dsc = (Inr (), st') \<and>
           calls st' = calls st @ [(f, [body_ptr ba, body_ptr bb] @ extra)] \<and>
           native st' = w \<and> cp_loaded st' \<and>
           attr_constraint (objs st' self) = Some h \<and>
           attr_a (objs st' self) = Some a \<and> attr_b (objs st' self) = Some b \<and>
           (\<exists>ba'. bodies st' a = Some ba' \<and> self \<in> constraints ba') \<and>
           (\<exists>bb'. bodies st' b = Some bb' \<and> self \<in> constraints bb')"
proof -
  let ?args = "[body_ptr ba, body_ptr bb] @ extra"
  let ?st1 = "st\<lparr>calls := calls st @ [(f, ?args)], native := w\<rparr>"
  let ?st2 = "?st1\<lparr>objs := (objs ?st1)(self := (objs ?st1 self)\<lparr>attr_constraint := Some h\<rparr>)\<rparr>"
  have call: "cp_call lib st f ?args = (Inr h, ?st1)"
    using assms(1,4) by (simp add: cp_call_loaded)
  show ?thesis
  proof (cases with_dsc)
    case False
    have nj: "new_joint lib st self a b f extra with_dsc = set_bodies ?st2 self a b"
      using assms(1-3) call False by (simp add: new_joint_def body_of_def Let_def)
    have "bodies ?st2 a = Some ba" "bodies ?st2 b = Some bb" using assms by simp_all
    from set_bodies_ok [OF this, of self] obtain st' where
      "set_bodies ?st2 self a b = (Inr (), st')" "calls st' = calls ?st2"
      "native st' = native ?st2" "cp_loaded st' = cp_loaded ?st2"
      "attr_constraint (objs st' self) = attr_constraint (objs ?st2 self)"
      "attr_a (objs st' self) = Some a" "attr_b (objs st' self) = Some b"
      "\<exists>ba'. bodies st' a = Some ba' \<and> self \<in> constraints ba'"
      "\<exists>bb'. bodies st' b = Some bb' \<and> self \<in> constraints bb'"
      by blast
    then show ?thesis using nj assms(1) by simp
  next
    case True
    then obtain cc where cc: "contents h = Inr cc" using assms(5) by blast
    let ?st3 = "?st2\<lparr>objs := (objs ?st2)(self := (objs ?st2 self)\<lparr>attr_ccontents := Some cc, attr_dsc := Some cc\<rparr>)\<rparr>"
    have nj: "new_joint lib st self a b f extra with_dsc = set_bodies ?st3 self a b"
      using assms(1-3) call True cc by (simp add: new_joint_def body_of_def Let_def)
    have "bodies ?st3 a = Some ba" "bodies ?st3 b = Some bb" using assms by simp_all
    from set_bodies_ok [OF this, of self] obtain st' where
      "set_bodies ?st3 self a b = (Inr (), st')" "calls st' = calls ?st3"
      "native st' = native ?st3" "cp_loaded st' = cp_loaded ?st3"
      "attr_constraint (objs st' self) = attr_constraint (objs ?st3 self)"
      "attr_a (objs st' self) = Some a" "attr_b (objs st' self) = Some b"
      "\<exists>ba'. bodies st' a = Some ba' \<and> self \<in> constraints ba'"
      "\<exists>bb'. bodies st' b = Some bb' \<and> self \<in> constraints bb'"
      by blast
    then show ?thesis using nj assms(1) by simp
  qed
qed


subsection \<open>Property accesses keep the object and only call accessors\<close>








subsection \<open>The classes\<close>

lemma arity_ok_joint: "arity_ok c n \<Longrightarrow> c \<in> set joint_classes"
  by (cases c) (simp_all add: joint_classes_def)

lemma module_classes_all: "set module_classes = UNIV"
proof -
  have "c \<in> set module_classes" for c
    by (cases c) (simp_all add: module_classes_def joint_classes_def)
  then show ?thesis by blast
qed

lemma kinds_covered:
  "list_all (\<lambda>k. list_ex (\<lambda>c. of_kind c k) joint_classes) glossary_kinds"
  by (simp add: glossary_kinds_def joint_classes_def of_kind_def)

subsection \<open>The example states\<close>

lemmas run_defs = init_def PinJoint_init_def GearJoint_init_def new_joint_def new_obj_def
  st0_def lib0_def body_of_def cp_call_def set_bodies_def add_constraint_def empty_obj_def
  Let_def




subsection \<open>The claims\<close>







text \<open>
  C5, as the spec states it: every property has both a getter and a setter, each a
  foreign call. \<open>impulse\<close> has no setter, so writing it raises AttributeError; \<open>a\<close> has no
  setter either, and its getter returns the stored body without a foreign call.
\<close>

theorem impulse_has_no_setter:
  "find_prop PinJoint ''impulse'' = Some (Foreign ''cpConstraintGetImpulse'', None) \<and>
   write_prop lib0 PinJoint ''impulse'' st_pin 7 (CNum 1) = (Inl AttributeError, st_pin) \<and>
   find_prop PinJoint ''a'' = Some (Attr ''_a'', None) \<and>
   read_prop lib0 PinJoint ''a'' st_pin 7 = (Inr (CObj 5), st_pin)"
  by (simp add: write_prop_def read_prop_def find_prop_def props.simps get_body_attr_def
      st_pin_def run_defs)

text \<open>
  C5, amended: a property has a setter unless it is \<open>impulse\<close>, \<open>a\<close> or \<open>b\<close>, and
  writing one of these three raises AttributeError and changes nothing. The getter is a
  foreign call unless the property is \<open>a\<close>, \<open>b\<close>, \<open>GearJoint.phase\<close>,
  \<open>GearJoint.ratio\<close> or \<open>SimpleMotor.rate\<close>, and a setter is a foreign call exactly
  when the getter of its property is.
\<close>

theorem property_pairing:
  assumes "find_prop c name = Some (g, s)"
  shows "(s = None) = (name = ''impulse'' \<or> name = ''a'' \<or> name = ''b'') \<and>
         (s = None \<longrightarrow> write_prop lib c name st self v = (Inl AttributeError, st)) \<and>
         is_foreign g =
           (\<not> (name = ''a'' \<or> name = ''b'' \<or>
                (c = GearJoint \<and> (name = ''phase'' \<or> name = ''ratio'')) \<or>
                (c = SimpleMotor \<and> name = ''rate''))) \<and>
         (\<forall>s'. s = Some s' \<longrightarrow> is_foreign s' = is_foreign g)"
proof -
  from find_prop_cases [OF assms] obtain c' where in': "(name, g, s) \<in> set (props c')"
    by blast
  have 1: "(s = None) = (name = ''impulse'' \<or> name = ''a'' \<or> name = ''b'')"
    using no_setter_in [OF in'] .
  have 2: "s = None \<longrightarrow> write_prop lib c name st self v = (Inl AttributeError, st)"
    using assms by (simp add: write_prop_def)
  have 3: "is_foreign g =
           (\<not> (name = ''a'' \<or> name = ''b'' \<or>
                (c = GearJoint \<and> (name = ''phase'' \<or> name = ''ratio'')) \<or>
                (c = SimpleMotor \<and> name = ''rate'')))"
  proof -
    from find_prop_sharp [OF assms] consider
      (own) "(name, g, s) \<in> set (props c)"
      | (inh) "name \<notin> fst ` set (props c)" "(name, g, s) \<in> set (props Constraint)" by blast
    then show ?thesis
    proof cases
      case own
      then show ?thesis by (rule getter_kind_own)
    next
      case inh
      from getter_kind_own [OF inh(2)] have "is_foreign g = (\<not> (name = ''a'' \<or> name = ''b''))"
        by simp
      then show ?thesis using inh(1) own_names_dsc [of name] by blast
    qed
  qed
  have 4: "\<forall>s'. s = Some s' \<longrightarrow> is_foreign s' = is_foreign g"
    using in' setter_kind_in by blast
  show ?thesis using 1 2 3 4 by blast
qed

theorem property_pairing_witness:
  "find_prop SlideJoint ''min'' =
     Some (Foreign ''cpSlideJointGetMin'', Some (Foreign ''cpSlideJointSetMin'')) \<and>
   is_foreign (Foreign ''cpSlideJointGetMin'') \<and> is_foreign (Foreign ''cpSlideJointSetMin'') \<and>
   find_prop RatchetJoint ''b'' = Some (Attr ''_b'', None) \<and>
   \<not> is_foreign (Attr ''_b'') \<and>
   write_prop lib0 RatchetJoint ''b'' st0 7 (CObj 5) = (Inl AttributeError, st0)"
proof -
  have h1: "find_prop SlideJoint ''min'' =
     Some (Foreign ''cpSlideJointGetMin'', Some (Foreign ''cpSlideJointSetMin''))"
    by (simp add: find_prop_def props.simps)
  have h2: "find_prop RatchetJoint ''b'' = Some (Attr ''_b'', None)"
    by (simp add: find_prop_def props.simps)
  from property_pairing [OF h1] property_pairing [OF h2, of lib0 st0 7 "CObj 5"]
  show ?thesis using h1 h2 by simp
qed

text \<open>
  C7, as the spec states it: the subclasses of the module are those of the joint kinds
  of the glossary. \<open>RotaryLimitJoint\<close> is a class of the module, with a foreign
  constructor of its own, and its name is of none of the kinds the glossary lists.
\<close>

theorem rotary_limit_joint_of_no_kind:
  "RotaryLimitJoint \<in> set module_classes \<and> RotaryLimitJoint \<noteq> Constraint \<and>
   list_all (\<lambda>k. \<not> of_kind RotaryLimitJoint k) glossary_kinds \<and>
   fst (init lib0 (new_obj st0 7) RotaryLimitJoint 7 5 6 [CNum 0, CNum 1]) = Inr () \<and>
   calls (snd (init lib0 (new_obj st0 7) RotaryLimitJoint 7 5 6 [CNum 0, CNum 1])) =
     [(''cpRotaryLimitJointNew'', [CPtr 50, CPtr 60, CNum 0, CNum 1])]"
  by (simp add: module_classes_def joint_classes_def glossary_kinds_def of_kind_def
      run_defs RotaryLimitJoint_init_def)

text \<open>
  C7, amended: the module defines \<open>Constraint\<close> and ten joint classes, and nothing
  else; every kind of the glossary is the kind of at least one joint class. For a joint
  class \<open>C\<close>, two bodies and a number of further arguments that \<open>C.__init__\<close> accepts,
  with \<open>cp\<close> loaded, if the foreign constructor \<open>cpCNew\<close> (\<open>cpPivotJointNew2\<close> for two
  anchor points) returns a handle (not NULL, for \<open>GearJoint\<close> and \<open>SimpleMotor\<close>), then
  the constructor returns, having made exactly that one call on the two native bodies
  and the arguments; the result is stored as the handle, and the object is added to the
  constraint sets of the two bodies.
\<close>

theorem joint_constructors:
  assumes "arity_ok c (length args)" and "cp_loaded st"
    and "bodies st a = Some ba" and "bodies st b = Some bb"
    and "ffi lib (ctor_name c (length args)) ([body_ptr ba, body_ptr bb] @ ctor_args c args)
           (native st) = (Inr h, w)"
    and "uses_dsc c \<Longrightarrow> \<exists>cc. contents h = Inr cc"
  shows "c \<in> set joint_classes \<and>
         (\<exists>st'. init lib st c self a b args = (Inr (), st') \<and>
            calls st' = calls st @
              [(ctor_name c (length args), [body_ptr ba, body_ptr bb] @ ctor_args c args)] \<and>
            native st' = w \<and> attr_constraint (objs st' self) = Some h \<and>
            attr_a (objs st' self) = Some a \<and> attr_b (objs st' self) = Some b \<and>
            (\<exists>ba'. bodies st' a = Some ba' \<and> self \<in> constraints ba') \<and>
            (\<exists>bb'. bodies st' b = Some bb' \<and> self \<in> constraints bb')) \<and>
         set module_classes = UNIV \<and>
         list_all (\<lambda>k. list_ex (\<lambda>c. of_kind c k) joint_classes) glossary_kinds"
proof -
  from new_joint_ok [OF assms(2-5), of "uses_dsc c" self] assms(6)
  obtain st' where
    "new_joint lib st self a b (ctor_name c (length args)) (ctor_args c args) (uses_dsc c) = (Inr (), st')"
    "calls st' = calls st @
       [(ctor_name c (length args), [body_ptr ba, body_ptr bb] @ ctor_args c args)]"
    "native st' = w" "attr_constraint (objs st' self) = Some h"
    "attr_a (objs st' self) = Some a" "attr_b (objs st' self) = Some b"
    "\<exists>ba'. bodies st' a = Some ba' \<and> self \<in> constraints ba'"
    "\<exists>bb'. bodies st' b = Some bb' \<and> self \<in> constraints bb'"
    by blast
  then have "\<exists>st'. init lib st c self a b args = (Inr (), st') \<and>
            calls st' = calls st @
              [(ctor_name c (length args), [body_ptr ba, body_ptr bb] @ ctor_args c args)] \<and>
            native st' = w \<and> attr_constraint (objs st' self) = Some h \<and>
            attr_a (objs st' self) = Some a \<and> attr_b (objs st' self) = Some b \<and>
            (\<exists>ba'. bodies st' a = Some ba' \<and> self \<in> constraints ba') \<and>
            (\<exists>bb'. bodies st' b = Some bb' \<and> self \<in> constraints bb')"
    using init_arity_ok [OF assms(1), of lib st self a b] by metis
  then show ?thesis
    using arity_ok_joint [OF assms(1)] module_classes_all kinds_covered by blast
qed

theorem joint_constructors_witness:
  "arity_ok PivotJoint (length [CVec 1 1, CVec 2 2]) \<and> cp_loaded st0 \<and>
   bodies st0 5 = Some \<lparr>body_ptr = CPtr 50, constraints = {}\<rparr> \<and>
   bodies st0 6 = Some \<lparr>body_ptr = CPtr 60, constraints = {}\<rparr> \<and>
   ffi lib0 ''cpPivotJointNew2'' [CPtr 50, CPtr 60, CVec 1 1, CVec 2 2] (native st0) =
     (Inr (CPtr 10), 1) \<and>
   PivotJoint \<in> set joint_classes \<and>
   (\<exists>st'. init lib0 st0 PivotJoint 7 5 6 [CVec 1 1, CVec 2 2] = (Inr (), st') \<and>
      calls st' = [(''cpPivotJointNew2'', [CPtr 50, CPtr 60, CVec 1 1, CVec 2 2])] \<and>
      attr_constraint (objs st' 7) = Some (CPtr 10))"
proof -
  let ?args = "[CVec 1 1, CVec 2 2]"
  let ?ba = "\<lparr>body_ptr = CPtr 50, constraints = {}\<rparr>"
  let ?bb = "\<lparr>body_ptr = CPtr 60, constraints = {}\<rparr>"
  have cn: "ctor_name PivotJoint (length ?args) = ''cpPivotJointNew2''"
    by (simp add: ctor_name_def)
  have ca: "[body_ptr ?ba, body_ptr ?bb] @ ctor_args PivotJoint ?args =
            [CPtr 50, CPtr 60, CVec 1 1, CVec 2 2]"
    by (simp add: ctor_args_def)
  have h1: "arity_ok PivotJoint (length ?args)" by simp
  have h2: "cp_loaded st0" by (simp add: st0_def)
  have h3: "bodies st0 5 = Some ?ba" by (simp add: st0_def)
  have h4: "bodies st0 6 = Some ?bb" by (simp add: st0_def)
  have f: "ffi lib0 ''cpPivotJointNew2'' [CPtr 50, CPtr 60, CVec 1 1, CVec 2 2] (native st0) =
     (Inr (CPtr 10), 1)"
    by (simp add: lib0_def st0_def)
  have h5: "ffi lib0 (ctor_name PivotJoint (length ?args))
        ([body_ptr ?ba, body_ptr ?bb] @ ctor_args PivotJoint ?args) (native st0) =
        (Inr (CPtr 10), 1)"
    unfolding cn ca by (rule f)
  have h6: "uses_dsc PivotJoint \<Longrightarrow> \<exists>cc. contents (CPtr 10) = Inr cc" by simp
  have c0: "calls st0 = []" by (simp add: st0_def)
  from joint_constructors [OF h1 h2 h3 h4 h5 h6, of 7]
  have "PivotJoint \<in> set joint_classes \<and>
   (\<exists>st'. init lib0 st0 PivotJoint 7 5 6 ?args = (Inr (), st') \<and>
      calls st' = [(''cpPivotJointNew2'', [CPtr 50, CPtr 60, CVec 1 1, CVec 2 2])] \<and>
      attr_constraint (objs st' 7) = Some (CPtr 10))"
    unfolding cn ca c0 by auto
  then show ?thesis using h1 h2 h3 h4 f by blast
qed

text \<open>
  C9: \<open>PivotJoint(a, b, *args)\<close> with neither one nor two further arguments raises
  the exception of the \<open>else\<close> branch and leaves the state as it was: no foreign call is
  made and no body is changed. The object, which never got a handle, is collected
  without a foreign call.
\<close>

theorem pivot_joint_bad_args:
  assumes "length args \<noteq> 1" and "length args \<noteq> 2"
  shows "init lib st PivotJoint self a b args =
           (Inl (Exception ''You must specify either one pivot point or two anchor points''), st) \<and>
         calls (lifetime lib st PivotJoint self a b args acts shutdown) = calls st \<and>
         native (lifetime lib st PivotJoint self a b args acts shutdown) = native st \<and>
         bodies (lifetime lib st PivotJoint self a b args acts shutdown) = bodies st"
proof -
  have bad: "\<not> arity_ok PivotJoint (length args)" using assms by simp
  have i: "init lib st' PivotJoint self a b args =
           (Inl (Exception ''You must specify either one pivot point or two anchor points''), st')"
    for st' :: "'a state"
    using init_arity_bad [OF bad, of lib st' self a b] by simp
  have l: "lifetime lib st PivotJoint self a b args acts shutdown =
           finalise lib (new_obj st self) self shutdown"
    by (simp add: lifetime_def i)
  have f: "calls (finalise lib (new_obj st self) self shutdown) = calls st \<and>
           native (finalise lib (new_obj st self) self shutdown) = native st \<and>
           bodies (finalise lib (new_obj st self) self shutdown) = bodies st"
    by (simp add: finalise_def del_obj_def get_constraint_def new_obj_def empty_obj_def)
  show ?thesis using i l f by simp
qed

theorem pivot_joint_bad_args_witness:
  "length [CVec 1 1, CVec 2 2, CVec 3 3] \<noteq> 1 \<and> length [CVec 1 1, CVec 2 2, CVec 3 3] \<noteq> 2 \<and>
   init lib0 st0 PivotJoint 7 5 6 [CVec 1 1, CVec 2 2, CVec 3 3] =
     (Inl (Exception ''You must specify either one pivot point or two anchor points''), st0) \<and>
   calls (lifetime lib0 st0 PivotJoint 7 5 6 [CVec 1 1, CVec 2 2, CVec 3 3] [] False) = []"
proof -
  have h1: "length [CVec 1 1, CVec 2 2, CVec 3 3] \<noteq> 1" by simp
  have h2: "length [CVec 1 1, CVec 2 2, CVec 3 3] \<noteq> 2" by simp
  from pivot_joint_bad_args [OF h1 h2, of lib0 st0 7 5 6 "[]" False]
  show ?thesis by (simp add: st0_def)
qed

section \<open>Properties of the operations of Mat22 on objects\<close>






section \<open>Properties of the draw methods\<close>












lemma draw_segment_example:
  "draw_segment id \<lparr>new_batch = False, batch = Some []\<rparr> (Vec2d (3 / 2) 2) (Vec2d (- (5 / 2)) 7)
     [255, 0, 0, 255] =
   (Inr (), \<lparr>new_batch = False,
             batch = Some [\<lparr>p_count = 2, p_mode = GL_LINES, p_group = None,
                            p_vertices = V2i [1, 2, - 2, 7],
                            p_colors = [255, 0, 0, 255, 255, 0, 0, 255]\<rparr>]\<rparr>)"
  by (simp add: batch_add_def py_int_def repeat_color_def numeral_2_eq_2)


end
